theory Spec2Isabelle
  imports Complex_Main "HOL-Library.AList"
begin

section \<open>JavaScript values\<close>

text \<open>
  The component \<^verbatim>\<open>FlipViewWindows\<close> (file
  \<^verbatim>\<open>Libraries/Components/FlipViewWindows/FlipViewWindows.windows.js\<close>) handles
  untyped JavaScript values. Primitives and arrays are modelled by value, objects by
  reference into a store, so that "a new object is built" and "an existing object is
  left alone" are different statements.

  A number is a double: not-a-number, an infinity or a finite value. No arithmetic is
  done on numbers here; only their truthiness and their identity matter.
\<close>

type_synonym addr = nat

datatype jsnum = NaN | PosInfinity | NegInfinity | Finite real

datatype jsval =
    JUndefined
  | JNull
  | JBool bool
  | JNum jsnum
  | JStr string
  | JArr "jsval list"
  | JObj addr
  | JElem addr
  | JFun nat

text \<open>
  \<open>JObj a\<close> refers to a plain object (own properties in insertion order), \<open>JElem a\<close> to
  a React element, \<open>JFun f\<close> to the function with identity \<open>f\<close>.
\<close>

type_synonym properties = "(string \<times> jsval) list"

text \<open>
  The type of a React element: a host-component name, or a component (a function or a
  class, with its identity) whose \<^verbatim>\<open>displayName\<close> is a string when it has one.
  \<^verbatim>\<open>React.createElement\<close> also accepts \<^verbatim>\<open>undefined\<close> and \<^verbatim>\<open>null\<close>.
\<close>

datatype eltype =
    TUndefined
  | TNull
  | THost string
  | TComponent nat "string option"

record element =
  elType :: eltype
  elProps :: addr

datatype error = TypeError | InvariantViolation | DanglingReference

text \<open>
  \<open>TypeError\<close>: a property read on \<^verbatim>\<open>undefined\<close>, or a call of a value that is not
  a function. \<open>InvariantViolation\<close>: React's "Objects are not valid as a React child".
  \<open>DanglingReference\<close>: an address outside the store, which no JavaScript program can
  hold; the model reports it instead of reading an unspecified value.
\<close>

record dispatch =
  target :: jsval
  command :: jsval
  args :: "jsval list"

text \<open>
  Everything the component can read or change: the two stores, the lines written with
  \<^verbatim>\<open>console.warn\<close>, the commands handed to
  \<^verbatim>\<open>UIManager.dispatchViewManagerCommand\<close>, and the calls made to user callbacks
  (function identity and arguments).
\<close>

record world =
  objects :: "properties list"
  elements :: "element list"
  warnings :: "string list"
  commands :: "dispatch list"
  calls :: "(nat \<times> jsval list) list"

definition bindE :: "error + 'a \<Rightarrow> ('a \<Rightarrow> error + 'b) \<Rightarrow> error + 'b" where
  "bindE m f = (case m of Inl e \<Rightarrow> Inl e | Inr x \<Rightarrow> f x)"

text \<open>JavaScript's \<^verbatim>\<open>ToBoolean\<close>.\<close>

fun truthy :: "jsval \<Rightarrow> bool" where
  "truthy JUndefined = False"
| "truthy JNull = False"
| "truthy (JBool b) = b"
| "truthy (JNum n) = (n \<noteq> NaN \<and> n \<noteq> Finite 0)"
| "truthy (JStr s) = (s \<noteq> [])"
| "truthy (JArr xs) = True"
| "truthy (JObj a) = True"
| "truthy (JElem a) = True"
| "truthy (JFun f) = True"

definition lookup :: "properties \<Rightarrow> string \<Rightarrow> jsval" where
  "lookup ps n = (case map_of ps n of None \<Rightarrow> JUndefined | Some v \<Rightarrow> v)"

definition allocObject :: "world \<Rightarrow> properties \<Rightarrow> addr \<times> world" where
  "allocObject w ps = (length (objects w), w\<lparr>objects := objects w @ [ps]\<rparr>)"

definition allocElement :: "world \<Rightarrow> element \<Rightarrow> addr \<times> world" where
  "allocElement w e = (length (elements w), w\<lparr>elements := elements w @ [e]\<rparr>)"

section \<open>The parts of React the component calls\<close>

text \<open>
  \<^verbatim>\<open>React.createElement(type, config)\<close> with no further arguments: a new element of
  that type whose props are a new object, a copy of the properties of the object
  \<open>config\<close>. Keys and refs are not modelled (an element's props never hold them), and
  the defaults of the type were resolved when the config's source element was built.
\<close>

definition createElement :: "world \<Rightarrow> eltype \<Rightarrow> addr \<Rightarrow> error + jsval \<times> world" where
  "createElement w ty config =
     (if config < length (objects w)
      then
        let (p, w1) = allocObject w (objects w ! config);
            (e, w2) = allocElement w1 \<lparr>elType = ty, elProps = p\<rparr>
        in Inr (JElem e, w2)
      else Inl DanglingReference)"

text \<open>
  What the callback of \<^verbatim>\<open>React.Children.map\<close> is invoked with: \<^verbatim>\<open>null\<close>, a
  string, a number or an element. React turns \<^verbatim>\<open>undefined\<close> and booleans into
  \<^verbatim>\<open>null\<close> before the call, walks into arrays, skips functions and rejects any
  other object.
\<close>

datatype child = CNull | CStr string | CNum jsnum | CElem addr

fun ofChild :: "child \<Rightarrow> jsval" where
  "ofChild CNull = JNull"
| "ofChild (CStr s) = JStr s"
| "ofChild (CNum n) = JNum n"
| "ofChild (CElem a) = JElem a"

fun traverseAllChildren ::
    "(world \<Rightarrow> child \<Rightarrow> error + jsval list \<times> world) \<Rightarrow> world \<Rightarrow> jsval
      \<Rightarrow> error + jsval list \<times> world"
  and traverseArray ::
    "(world \<Rightarrow> child \<Rightarrow> error + jsval list \<times> world) \<Rightarrow> world \<Rightarrow> jsval list
      \<Rightarrow> error + jsval list \<times> world"
where
  "traverseAllChildren cb w JUndefined = cb w CNull"
| "traverseAllChildren cb w (JBool b) = cb w CNull"
| "traverseAllChildren cb w JNull = cb w CNull"
| "traverseAllChildren cb w (JStr s) = cb w (CStr s)"
| "traverseAllChildren cb w (JNum n) = cb w (CNum n)"
| "traverseAllChildren cb w (JElem a) = cb w (CElem a)"
| "traverseAllChildren cb w (JArr xs) = traverseArray cb w xs"
| "traverseAllChildren cb w (JFun f) = Inr ([], w)"
| "traverseAllChildren cb w (JObj a) = Inl InvariantViolation"
| "traverseArray cb w [] = Inr ([], w)"
| "traverseArray cb w (x # xs) =
     bindE (traverseAllChildren cb w x) (\<lambda>(r1, w1).
     bindE (traverseArray cb w1 xs) (\<lambda>(r2, w2).
     Inr (r1 @ r2, w2)))"

text \<open>
  What one callback result adds to the output array: nothing for \<^verbatim>\<open>null\<close> and
  \<^verbatim>\<open>undefined\<close>, the leaves of an array (walked with the identity callback), the
  value itself otherwise. React gives each mapped element a new key; keys are not
  modelled, so the mapped element stands for its re-keyed copy.
\<close>

definition pushIdentity :: "world \<Rightarrow> child \<Rightarrow> error + jsval list \<times> world" where
  "pushIdentity w c = Inr (if c = CNull then [] else [ofChild c], w)"

definition mapSingleChild ::
    "(world \<Rightarrow> child \<Rightarrow> error + jsval \<times> world) \<Rightarrow> world \<Rightarrow> child
      \<Rightarrow> error + jsval list \<times> world" where
  "mapSingleChild func w c =
     bindE (func w c) (\<lambda>(mapped, w1).
       case mapped of
         JArr xs \<Rightarrow> traverseArray pushIdentity w1 xs
       | JNull \<Rightarrow> Inr ([], w1)
       | JUndefined \<Rightarrow> Inr ([], w1)
       | _ \<Rightarrow> Inr ([mapped], w1))"

definition mapChildren ::
    "(world \<Rightarrow> child \<Rightarrow> error + jsval \<times> world) \<Rightarrow> world \<Rightarrow> jsval
      \<Rightarrow> error + jsval \<times> world" where
  "mapChildren func w children =
     (if children = JUndefined \<or> children = JNull then Inr (children, w)
      else bindE (traverseAllChildren (mapSingleChild func) w children) (\<lambda>(result, w1).
           Inr (JArr result, w1)))"

section \<open>The component\<close>

record config =
  initialPage :: jsval
  alwaysAnimate :: jsval
  onSelectionChange :: jsval
  style :: jsval
  selectedIndex :: jsval
  children :: jsval

text \<open>
  A mounted instance: its props (\<^verbatim>\<open>this.props\<close>; an absent prop reads as
  \<^verbatim>\<open>undefined\<close>), the node handle \<^verbatim>\<open>ReactNative.findNodeHandle(this)\<close> resolves to,
  and the identity of its arrow function \<^verbatim>\<open>this._onSelectionChange\<close>.
\<close>

record component =
  props :: config
  nodeHandle :: jsval
  selectionChangeRelay :: nat

text \<open>
  The two values the module takes from the native side:
  \<^verbatim>\<open>requireNativeComponent('WindowsFlipView', FlipViewWindows)\<close> and
  \<^verbatim>\<open>UIManager.WindowsFlipView.Commands.setPage\<close>.
\<close>

record natives =
  NativeWindowsFlipView :: eltype
  setPageCommand :: jsval

definition setPage :: "natives \<Rightarrow> component \<Rightarrow> jsval \<Rightarrow> world \<Rightarrow> world" where
  "setPage env this selectedPage w =
     w\<lparr>commands := commands w @
        [\<lparr>target = nodeHandle this, command = setPageCommand env, args = [selectedPage]\<rparr>]\<rparr>"

definition componentDidMount :: "natives \<Rightarrow> component \<Rightarrow> world \<Rightarrow> world" where
  "componentDidMount env this w =
     (if truthy (initialPage (props this))
      then setPage env this (initialPage (props this)) w
      else w)"

text \<open>
  Calling a value: a function is invoked (the call is recorded; what user code does
  inside is not the component's), anything else is a \<^verbatim>\<open>TypeError\<close>.
\<close>

fun callFunction :: "world \<Rightarrow> jsval \<Rightarrow> jsval list \<Rightarrow> error + world" where
  "callFunction w (JFun f) as = Inr (w\<lparr>calls := calls w @ [(f, as)]\<rparr>)"
| "callFunction w _ as = Inl TypeError"

definition this_onSelectionChange :: "component \<Rightarrow> jsval \<Rightarrow> world \<Rightarrow> error + world" where
  "this_onSelectionChange this e w =
     (if truthy (onSelectionChange (props this))
      then callFunction w (onSelectionChange (props this)) [e]
      else Inr w)"

text \<open>Property reads of the callback: \<^verbatim>\<open>child.props\<close>, \<^verbatim>\<open>child.type\<close>,
  \<^verbatim>\<open>{...child.props}\<close> and \<^verbatim>\<open>child.props.style\<close>. A string or a number has
  neither \<^verbatim>\<open>props\<close> nor \<^verbatim>\<open>type\<close>; spreading \<^verbatim>\<open>undefined\<close> adds nothing; reading a
  property of \<^verbatim>\<open>undefined\<close> or \<^verbatim>\<open>null\<close> throws.\<close>

fun childProps :: "world \<Rightarrow> child \<Rightarrow> error + addr option" where
  "childProps w CNull = Inl TypeError"
| "childProps w (CStr s) = Inr None"
| "childProps w (CNum n) = Inr None"
| "childProps w (CElem a) =
     (if a < length (elements w) then Inr (Some (elProps (elements w ! a)))
      else Inl DanglingReference)"

fun childType :: "world \<Rightarrow> child \<Rightarrow> error + eltype" where
  "childType w CNull = Inl TypeError"
| "childType w (CStr s) = Inr TUndefined"
| "childType w (CNum n) = Inr TUndefined"
| "childType w (CElem a) =
     (if a < length (elements w) then Inr (elType (elements w ! a))
      else Inl DanglingReference)"

fun spreadProps :: "world \<Rightarrow> addr option \<Rightarrow> error + properties" where
  "spreadProps w None = Inr []"
| "spreadProps w (Some p) =
     (if p < length (objects w) then Inr (objects w ! p) else Inl DanglingReference)"

fun propsStyle :: "world \<Rightarrow> addr option \<Rightarrow> error + jsval" where
  "propsStyle w None = Inl TypeError"
| "propsStyle w (Some p) =
     (if p < length (objects w) then Inr (lookup (objects w ! p) ''style'')
      else Inl DanglingReference)"

fun truthyChild :: "child \<Rightarrow> bool" where
  "truthyChild c = truthy (ofChild c)"

fun truthyType :: "eltype \<Rightarrow> bool" where
  "truthyType TUndefined = False"
| "truthyType TNull = False"
| "truthyType (THost s) = (s \<noteq> [])"
| "truthyType (TComponent i dn) = True"

fun displayName :: "eltype \<Rightarrow> string option" where
  "displayName (TComponent i dn) = dn"
| "displayName _ = None"

definition fillStyle :: properties where
  "fillStyle =
     [(''position'', JStr ''absolute''),
      (''left'', JNum (Finite 0)),
      (''top'', JNum (Finite 0)),
      (''right'', JNum (Finite 0)),
      (''bottom'', JNum (Finite 0)),
      (''width'', JUndefined),
      (''height'', JUndefined)]"

fun truthyName :: "string option \<Rightarrow> bool" where
  "truthyName None = False"
| "truthyName (Some s) = (s \<noteq> [])"

text \<open>String concatenation with a \<^verbatim>\<open>displayName\<close>; \<^verbatim>\<open>undefined\<close> prints as its name.\<close>

fun concatName :: "string \<Rightarrow> string option \<Rightarrow> string" where
  "concatName s None = s @ ''undefined''"
| "concatName s (Some dn) = s @ dn"

definition consoleWarn :: "world \<Rightarrow> string \<Rightarrow> world" where
  "consoleWarn w msg = w\<lparr>warnings := warnings w @ [msg]\<rparr>"

text \<open>The function passed to \<^verbatim>\<open>React.Children.map\<close> in
  \<^verbatim>\<open>_childrenWithOverridenStyle\<close>.\<close>

definition childWithOverridenStyle :: "world \<Rightarrow> child \<Rightarrow> error + jsval \<times> world" where
  "childWithOverridenStyle w child =
     (if \<not> truthyChild child then Inr (JNull, w)
      else
        bindE (childProps w child) (\<lambda>cp.
        bindE (spreadProps w cp) (\<lambda>spread.
        bindE (propsStyle w cp) (\<lambda>st.
        let (fill, w1) = allocObject w fillStyle;
            newProps = AList.update ''collapsable'' (JBool False)
                         (AList.update ''style'' (JArr [st, JObj fill]) spread);
            (np, w2) = allocObject w1 newProps
        in
        bindE (childType w2 child) (\<lambda>ty.
        let w3 = (if truthyType ty \<and> truthyName (displayName ty) \<and>
                     displayName ty \<noteq> Some ''RCTView'' \<and>
                     displayName ty \<noteq> Some ''View''
                  then consoleWarn w2
                         (concatName ''Each FlipView child must be a <View>. Was ''
                            (displayName ty))
                  else w2)
        in createElement w3 ty np)))))"

definition childrenWithOverridenStyle :: "component \<Rightarrow> world \<Rightarrow> error + jsval \<times> world" where
  "childrenWithOverridenStyle this w =
     mapChildren childWithOverridenStyle w (children (props this))"

text \<open>
  \<^verbatim>\<open>render()\<close>: the JSX expression is a call of \<^verbatim>\<open>React.createElement\<close> on the
  native component and an object literal of the five props. The \<^verbatim>\<open>ref\<close> attribute is
  not a prop and is not modelled.
\<close>

definition render :: "natives \<Rightarrow> component \<Rightarrow> world \<Rightarrow> error + jsval \<times> world" where
  "render env this w =
     bindE (childrenWithOverridenStyle this w) (\<lambda>(kids, w1).
     let (config, w2) = allocObject w1
            [(''style'', style (props this)),
             (''alwaysAnimate'', alwaysAnimate (props this)),
             (''onSelectionChange'', JFun (selectionChangeRelay this)),
             (''selectedIndex'', selectedIndex (props this)),
             (''children'', kids)]
     in createElement w2 (NativeWindowsFlipView env) config)"

section \<open>Vocabulary of the statements\<close>

text \<open>
  The children a component was given, in document order: nested arrays flattened, as
  React walks them.
\<close>

fun leaves :: "jsval \<Rightarrow> jsval list" where
  "leaves (JArr xs) = concat (map leaves xs)"
| "leaves v = [v]"

text \<open>
  The children that never become a page: \<^verbatim>\<open>null\<close>, \<^verbatim>\<open>undefined\<close>, booleans and
  functions (React), and the falsy numbers and the empty string (the callback's own
  test).
\<close>

fun dropped :: "jsval \<Rightarrow> bool" where
  "dropped JUndefined = True"
| "dropped JNull = True"
| "dropped (JBool b) = True"
| "dropped (JNum n) = (n = NaN \<or> n = Finite 0)"
| "dropped (JStr s) = (s = [])"
| "dropped (JFun f) = True"
| "dropped (JArr xs) = False"
| "dropped (JObj a) = False"
| "dropped (JElem a) = False"

text \<open>An element reference that points into the store, and whose props object does.\<close>

definition knownElement :: "world \<Rightarrow> addr \<Rightarrow> bool" where
  "knownElement w a \<longleftrightarrow>
     a < length (elements w) \<and> elProps (elements w ! a) < length (objects w)"

fun wellFormedLeaf :: "world \<Rightarrow> jsval \<Rightarrow> bool" where
  "wellFormedLeaf w (JElem a) = knownElement w a"
| "wellFormedLeaf w v = True"

fun renderable :: "world \<Rightarrow> jsval \<Rightarrow> bool" where
  "renderable w (JElem a) = knownElement w a"
| "renderable w v = dropped v"

text \<open>
  \<open>extends w w'\<close>: the world \<open>w'\<close> is \<open>w\<close> with objects, elements and warnings added at
  the end; nothing that was there has changed, and no command or call was made.
\<close>

definition extends :: "world \<Rightarrow> world \<Rightarrow> bool" where
  "extends w w' \<longleftrightarrow>
     take (length (objects w)) (objects w') = objects w \<and>
     take (length (elements w)) (elements w') = elements w \<and>
     take (length (warnings w)) (warnings w') = warnings w \<and>
     commands w' = commands w \<and> calls w' = calls w"

text \<open>
  \<open>rewrittenFrom w w' a e\<close>: the element at \<open>e\<close> in \<open>w'\<close> is the page built from the
  element at \<open>a\<close> in \<open>w\<close>: same type, and the props of \<open>a\<close> with \<^verbatim>\<open>style\<close> set to the
  original style followed by a fill-overlay object, and \<^verbatim>\<open>collapsable\<close> set to false.
\<close>

definition rewrittenFrom :: "world \<Rightarrow> world \<Rightarrow> addr \<Rightarrow> addr \<Rightarrow> bool" where
  "rewrittenFrom w w' a e \<longleftrightarrow>
     e < length (elements w') \<and> elProps (elements w' ! e) < length (objects w') \<and>
     elType (elements w' ! e) = elType (elements w ! a) \<and>
     (\<exists>fill \<in> set [0..<length (objects w')]. objects w' ! fill = fillStyle \<and>
        objects w' ! elProps (elements w' ! e) =
          AList.update ''collapsable'' (JBool False)
            (AList.update ''style''
               (JArr [lookup (objects w ! elProps (elements w ! a)) ''style'', JObj fill])
               (objects w ! elProps (elements w ! a))))"

fun rewrittenChild :: "world \<Rightarrow> world \<Rightarrow> jsval \<Rightarrow> jsval \<Rightarrow> bool" where
  "rewrittenChild w w' (JElem a) (JElem e) = rewrittenFrom w w' a e"
| "rewrittenChild w w' c r = False"


section \<open>Concrete inputs\<close>

definition unsetProps :: config where
  "unsetProps = \<lparr>initialPage = JUndefined, alwaysAnimate = JUndefined,
     onSelectionChange = JUndefined, style = JUndefined, selectedIndex = JUndefined,
     children = JUndefined\<rparr>"

definition exampleNatives :: natives where
  "exampleNatives = \<lparr>NativeWindowsFlipView = THost ''WindowsFlipView'',
     setPageCommand = JNum (Finite 1)\<rparr>"

definition exampleComponent :: "config \<Rightarrow> component" where
  "exampleComponent c =
     \<lparr>props = c, nodeHandle = JNum (Finite 7), selectionChangeRelay = 0\<rparr>"

definition emptyWorld :: world where
  "emptyWorld = \<lparr>objects = [], elements = [], warnings = [], commands = [], calls = []\<rparr>"

text \<open>A world holding one element of the given type, with a style and one more prop.\<close>

definition pageWorld :: "eltype \<Rightarrow> world" where
  "pageWorld ty =
     \<lparr>objects = [[(''style'', JNum (Finite 3)), (''testID'', JStr ''first'')]],
      elements = [\<lparr>elType = ty, elProps = 0\<rparr>],
      warnings = [], commands = [], calls = []\<rparr>"

text \<open>The same world after that element was rewritten once, with the given warnings.\<close>

definition rewrittenPageWorld :: "eltype \<Rightarrow> string list \<Rightarrow> world" where
  "rewrittenPageWorld ty ws =
     \<lparr>objects =
        [[(''style'', JNum (Finite 3)), (''testID'', JStr ''first'')],
         fillStyle,
         [(''style'', JArr [JNum (Finite 3), JObj 1]), (''testID'', JStr ''first''),
          (''collapsable'', JBool False)],
         [(''style'', JArr [JNum (Finite 3), JObj 1]), (''testID'', JStr ''first''),
          (''collapsable'', JBool False)]],
      elements = [\<lparr>elType = ty, elProps = 0\<rparr>, \<lparr>elType = ty, elProps = 3\<rparr>],
      warnings = ws, commands = [], calls = []\<rparr>"

lemmas fixtures =
  unsetProps_def exampleNatives_def exampleComponent_def emptyWorld_def pageWorld_def
  rewrittenPageWorld_def

section \<open>Facts about the callback and the traversal\<close>

lemma take_length_iff: "take (length xs) ys = xs \<longleftrightarrow> (\<exists>zs. ys = xs @ zs)"
proof
  assume "take (length xs) ys = xs"
  then have "ys = xs @ drop (length xs) ys"
    using append_take_drop_id[of "length xs" ys] by simp
  then show "\<exists>zs. ys = xs @ zs" ..
qed auto

lemma extends_iff:
  "extends w w' \<longleftrightarrow>
     (\<exists>os es ws. objects w' = objects w @ os \<and> elements w' = elements w @ es \<and>
        warnings w' = warnings w @ ws) \<and>
     commands w' = commands w \<and> calls w' = calls w"
  unfolding extends_def take_length_iff by blast

lemma rewrittenFrom_iff:
  "rewrittenFrom w w' a e \<longleftrightarrow>
     e < length (elements w') \<and> elProps (elements w' ! e) < length (objects w') \<and>
     elType (elements w' ! e) = elType (elements w ! a) \<and>
     (\<exists>fill. fill < length (objects w') \<and> objects w' ! fill = fillStyle \<and>
        objects w' ! elProps (elements w' ! e) =
          AList.update ''collapsable'' (JBool False)
            (AList.update ''style''
               (JArr [lookup (objects w ! elProps (elements w ! a)) ''style'', JObj fill])
               (objects w ! elProps (elements w ! a))))"
  unfolding rewrittenFrom_def by (simp add: Bex_def)

lemma rewrittenChild_iff:
  "rewrittenChild w w' c r \<longleftrightarrow>
     (\<exists>a e. c = JElem a \<and> r = JElem e \<and> rewrittenFrom w w' a e)"
  by (cases "(w, w', c, r)" rule: rewrittenChild.cases) simp_all


lemma callback_falsy:
  "\<not> truthyChild c \<Longrightarrow> childWithOverridenStyle w c = Inr (JNull, w)"
  by (simp add: childWithOverridenStyle_def)

lemma callback_str: "s \<noteq> [] \<Longrightarrow> childWithOverridenStyle w (CStr s) = Inl TypeError"
  by (simp add: childWithOverridenStyle_def bindE_def)

lemma callback_num: "truthy (JNum n) \<Longrightarrow> childWithOverridenStyle w (CNum n) = Inl TypeError"
  by (simp add: childWithOverridenStyle_def bindE_def)

lemma callback_elem:
  "childWithOverridenStyle w (CElem a) =
    (if a < length (elements w) then
       if elProps (elements w ! a) < length (objects w) then
        Inr (JElem (length (elements w)),
          (let ty = elType (elements w ! a);
               np = AList.update ''collapsable'' (JBool False)
                     (AList.update ''style''
                        (JArr [lookup (objects w ! elProps (elements w ! a)) ''style'',
                               JObj (length (objects w))])
                        (objects w ! elProps (elements w ! a)))
           in w\<lparr>objects := objects w @ [fillStyle, np, np],
                elements := elements w @ [\<lparr>elType = ty, elProps = length (objects w) + 2\<rparr>],
                warnings := warnings w @
                  (if truthyType ty \<and> truthyName (displayName ty) \<and>
                     displayName ty \<noteq> Some ''RCTView'' \<and> displayName ty \<noteq> Some ''View''
                   then [concatName ''Each FlipView child must be a <View>. Was '' (displayName ty)]
                   else [])\<rparr>))
       else Inl DanglingReference
     else Inl DanglingReference)"
  by (simp add: childWithOverridenStyle_def bindE_def allocObject_def allocElement_def
        createElement_def consoleWarn_def Let_def nth_append)

lemma callback_elem_known:
  assumes "childWithOverridenStyle w (CElem a) = Inr (r, w')"
  shows "knownElement w a"
  using assms by (auto simp: callback_elem knownElement_def split: if_splits)

lemma callback_elem_result:
  assumes "childWithOverridenStyle w (CElem a) = Inr (r, w')"
  shows "r = JElem (length (elements w)) \<and> extends w w' \<and>
         length (elements w') = Suc (length (elements w)) \<and>
         rewrittenFrom w w' a (length (elements w))"
proof -
  have k: "a < length (elements w)" "elProps (elements w ! a) < length (objects w)"
    using callback_elem_known[OF assms] by (simp_all add: knownElement_def)
  show ?thesis
    using assms k unfolding callback_elem
    apply (simp add: Let_def extends_iff rewrittenFrom_iff)
    apply (elim conjE)
    apply (intro conjI)
    apply (auto simp: nth_append intro!: exI[of _ "length (objects w)"])
    done
qed

lemma callback_cases:
  assumes "childWithOverridenStyle w c = Inr (r, w')"
  shows "(\<not> truthyChild c \<and> r = JNull \<and> w' = w) \<or> (\<exists>a. c = CElem a)"
  using assms by (cases c) (auto simp: childWithOverridenStyle_def bindE_def split: if_splits)

lemma single_child:
  assumes "mapSingleChild childWithOverridenStyle w c = Inr (rs, w')"
  shows "(\<not> truthyChild c \<and> rs = [] \<and> w' = w) \<or>
         (\<exists>a. c = CElem a \<and> rs = [JElem (length (elements w))] \<and>
              childWithOverridenStyle w (CElem a) = Inr (JElem (length (elements w)), w'))"
proof (cases "childWithOverridenStyle w c")
  case (Inl e)
  with assms show ?thesis by (simp add: mapSingleChild_def bindE_def)
next
  case (Inr p)
  obtain r w1 where p: "p = (r, w1)" by (cases p)
  from callback_cases[OF Inr[unfolded p]] show ?thesis
  proof
    assume "\<not> truthyChild c \<and> r = JNull \<and> w1 = w"
    with assms Inr p show ?thesis by (simp add: mapSingleChild_def bindE_def)
  next
    assume "\<exists>a. c = CElem a"
    then obtain a where a: "c = CElem a" ..
    from callback_elem_result[OF Inr[unfolded p a]] have "r = JElem (length (elements w))" by simp
    with assms Inr p a show ?thesis by (simp add: mapSingleChild_def bindE_def)
  qed
qed

lemma extends_refl: "extends w w"
  by (simp add: extends_iff)

lemma extends_trans: "extends w1 w2 \<Longrightarrow> extends w2 w3 \<Longrightarrow> extends w1 w3"
  by (auto simp: extends_iff)

lemma single_child_extends:
  assumes "mapSingleChild childWithOverridenStyle w c = Inr (rs, w')"
  shows "extends w w'"
  using single_child[OF assms] callback_elem_result by (auto simp: extends_refl)

lemma traverse_extends_gen:
  shows "\<forall>w c rs w'. cb w c = Inr (rs, w') \<longrightarrow> extends w w' \<Longrightarrow>
           traverseAllChildren cb w v = Inr (res, w') \<Longrightarrow> extends w w'"
    and "\<forall>w c rs w'. cb w c = Inr (rs, w') \<longrightarrow> extends w w' \<Longrightarrow>
           traverseArray cb w xs = Inr (res, w') \<Longrightarrow> extends w w'"
proof (induction cb w v and cb w xs arbitrary: res w' and res w'
       rule: traverseAllChildren_traverseArray.induct)
  case (11 cb w x xs)
  from "11.prems"(2) obtain r1 w1 r2 where
    a: "traverseAllChildren cb w x = Inr (r1, w1)" and
    b: "traverseArray cb w1 xs = Inr (r2, w')"
    by (auto simp: bindE_def split: sum.splits)
  from "11.IH"(1)[OF "11.prems"(1) a] "11.IH"(2)[OF "11.prems"(1) b]
  show ?case by (rule extends_trans)
qed (auto simp: extends_refl)

lemma traverse_extends:
  "traverseAllChildren (mapSingleChild childWithOverridenStyle) w v = Inr (res, w')
     \<Longrightarrow> extends w w'"
  "traverseArray (mapSingleChild childWithOverridenStyle) w xs = Inr (res, w')
     \<Longrightarrow> extends w w'"
  using traverse_extends_gen[of "mapSingleChild childWithOverridenStyle"] single_child_extends
  by blast+

lemma extends_length:
  "extends w w' \<Longrightarrow> length (elements w) \<le> length (elements w') \<and>
     length (objects w) \<le> length (objects w')"
  by (auto simp: extends_iff)

lemma extends_nth:
  "extends w w' \<Longrightarrow> a < length (elements w) \<Longrightarrow> elements w' ! a = elements w ! a"
  "extends w w' \<Longrightarrow> p < length (objects w) \<Longrightarrow> objects w' ! p = objects w ! p"
  by (auto simp: extends_iff nth_append)

lemma knownElement_mono: "knownElement w a \<Longrightarrow> extends w w' \<Longrightarrow> knownElement w' a"
  using extends_length[of w w'] extends_nth(1)[of w w' a]
  by (auto simp: knownElement_def)

lemma wellFormedLeaf_mono: "wellFormedLeaf w v \<Longrightarrow> extends w w' \<Longrightarrow> wellFormedLeaf w' v"
  by (cases v) (auto intro: knownElement_mono)

lemma renderable_mono: "renderable w v \<Longrightarrow> extends w w' \<Longrightarrow> renderable w' v"
  by (cases v) (auto intro: knownElement_mono)



lemma rewrittenFrom_later:
  assumes "rewrittenFrom w w1 a e" and "extends w1 w2"
  shows "rewrittenFrom w w2 a e"
proof -
  from assms(1) obtain fill where
    e: "e < length (elements w1)" and p: "elProps (elements w1 ! e) < length (objects w1)" and
    t: "elType (elements w1 ! e) = elType (elements w ! a)" and
    f: "fill < length (objects w1)" "objects w1 ! fill = fillStyle" and
    n: "objects w1 ! elProps (elements w1 ! e) =
          AList.update ''collapsable'' (JBool False)
            (AList.update ''style''
               (JArr [lookup (objects w ! elProps (elements w ! a)) ''style'', JObj fill])
               (objects w ! elProps (elements w ! a)))"
    unfolding rewrittenFrom_iff by blast
  have e2: "elements w2 ! e = elements w1 ! e" using extends_nth(1)[OF assms(2) e] .
  have p2: "objects w2 ! elProps (elements w1 ! e) = objects w1 ! elProps (elements w1 ! e)"
    using extends_nth(2)[OF assms(2) p] .
  have f2: "objects w2 ! fill = fillStyle" using extends_nth(2)[OF assms(2) f(1)] f(2) by simp
  have l: "e < length (elements w2)" "elProps (elements w1 ! e) < length (objects w2)"
    "fill < length (objects w2)"
    using extends_length[OF assms(2)] e p f(1) by simp_all
  show ?thesis
    unfolding rewrittenFrom_iff e2 p2
    using l t f2 n by blast
qed

lemma rewrittenFrom_earlier:
  assumes "rewrittenFrom w1 w2 a e" and "extends w w1" and "knownElement w a"
  shows "rewrittenFrom w w2 a e"
proof -
  have a: "elements w1 ! a = elements w ! a"
    using extends_nth(1)[OF assms(2)] assms(3) by (simp add: knownElement_def)
  have p: "objects w1 ! elProps (elements w ! a) = objects w ! elProps (elements w ! a)"
    using extends_nth(2)[OF assms(2)] assms(3) by (simp add: knownElement_def)
  show ?thesis using assms(1) unfolding rewrittenFrom_iff a p .
qed

lemma rewrittenChild_later:
  "rewrittenChild w w1 c r \<Longrightarrow> extends w1 w2 \<Longrightarrow> rewrittenChild w w2 c r"
  unfolding rewrittenChild_iff using rewrittenFrom_later by blast

lemma rewrittenChild_earlier:
  "rewrittenChild w1 w2 c r \<Longrightarrow> extends w w1 \<Longrightarrow> wellFormedLeaf w c \<Longrightarrow>
     rewrittenChild w w2 c r"
  unfolding rewrittenChild_iff using rewrittenFrom_earlier by fastforce


lemma single_child_rewritten:
  assumes "mapSingleChild childWithOverridenStyle w c = Inr (rs, w')"
  shows "list_all2 (rewrittenChild w w') (filter (\<lambda>v. \<not> dropped v) [ofChild c]) rs"
  using single_child[OF assms]
proof
  assume "\<not> truthyChild c \<and> rs = [] \<and> w' = w"
  then show ?thesis by (cases c) auto
next
  assume "\<exists>a. c = CElem a \<and> rs = [JElem (length (elements w))] \<and>
    childWithOverridenStyle w (CElem a) = Inr (JElem (length (elements w)), w')"
  then obtain a where c: "c = CElem a" and rs: "rs = [JElem (length (elements w))]" and
    cw: "childWithOverridenStyle w (CElem a) = Inr (JElem (length (elements w)), w')"
    by blast
  from callback_elem_result[OF cw] show ?thesis
    by (simp add: c rs rewrittenChild_iff)
qed


lemma traverse_rewritten_gen:
  shows "cb = mapSingleChild childWithOverridenStyle \<Longrightarrow>
           list_all (wellFormedLeaf w) (leaves v) \<Longrightarrow>
           traverseAllChildren cb w v = Inr (res, w') \<Longrightarrow>
           list_all2 (rewrittenChild w w') (filter (\<lambda>v. \<not> dropped v) (leaves v)) res"
    and "cb = mapSingleChild childWithOverridenStyle \<Longrightarrow>
           list_all (wellFormedLeaf w) (concat (map leaves xs)) \<Longrightarrow>
           traverseArray cb w xs = Inr (res, w') \<Longrightarrow>
           list_all2 (rewrittenChild w w')
             (filter (\<lambda>v. \<not> dropped v) (concat (map leaves xs))) res"
proof (induction cb w v and cb w xs arbitrary: res w' and res w'
       rule: traverseAllChildren_traverseArray.induct)
  case (11 cb w x xs)
  from "11.prems"(3) obtain r1 w1 r2 where
    a: "traverseAllChildren cb w x = Inr (r1, w1)" and
    b: "traverseArray cb w1 xs = Inr (r2, w')" and r: "res = r1 @ r2"
    by (auto simp: bindE_def split: sum.splits)
  have e1: "extends w w1" using traverse_extends(1) a "11.prems"(1) by blast
  have e2: "extends w1 w'" using traverse_extends(2) b "11.prems"(1) by blast
  have wfx: "list_all (wellFormedLeaf w) (leaves x)"
    and wfxs: "list_all (wellFormedLeaf w) (concat (map leaves xs))"
    using "11.prems"(2) by simp_all
  have wfxs1: "list_all (wellFormedLeaf w1) (concat (map leaves xs))"
    using wfxs wellFormedLeaf_mono[OF _ e1] by (auto simp: list_all_iff)
  have "list_all2 (rewrittenChild w w1) (filter (\<lambda>v. \<not> dropped v) (leaves x)) r1"
    using "11.IH"(1)[OF "11.prems"(1) wfx a] .
  then have p1: "list_all2 (rewrittenChild w w') (filter (\<lambda>v. \<not> dropped v) (leaves x)) r1"
    by (rule list_all2_mono) (rule rewrittenChild_later[OF _ e2])
  have q: "list_all2 (rewrittenChild w1 w')
             (filter (\<lambda>v. \<not> dropped v) (concat (map leaves xs))) r2"
    using "11.IH"(2)[OF "11.prems"(1) wfxs1 b] .
  have p2: "list_all2 (rewrittenChild w w')
             (filter (\<lambda>v. \<not> dropped v) (concat (map leaves xs))) r2"
  proof (rule list.rel_mono_strong[OF q])
    fix c r
    assume "c \<in> set (filter (\<lambda>v. \<not> dropped v) (concat (map leaves xs)))"
      and rc: "rewrittenChild w1 w' c r"
    then have "wellFormedLeaf w c" using wfxs by (auto simp: list_all_iff)
    with rc e1 show "rewrittenChild w w' c r" by (rule rewrittenChild_earlier)
  qed
  show ?case using p1 p2 by (simp add: r list_all2_appendI)
qed (auto dest: single_child_rewritten)

lemma single_child_total:
  assumes "renderable w (ofChild c)"
  shows "\<exists>rs w'. mapSingleChild childWithOverridenStyle w c = Inr (rs, w')"
proof (cases c)
  case (CElem a)
  with assms have "knownElement w a" by simp
  then show ?thesis
    by (simp add: CElem mapSingleChild_def callback_elem knownElement_def bindE_def Let_def)
qed (use assms in \<open>auto simp: mapSingleChild_def callback_falsy bindE_def\<close>)

lemma traverse_total_gen:
  shows "cb = mapSingleChild childWithOverridenStyle \<Longrightarrow>
           list_all (renderable w) (leaves v) \<Longrightarrow>
           \<exists>res w'. traverseAllChildren cb w v = Inr (res, w')"
    and "cb = mapSingleChild childWithOverridenStyle \<Longrightarrow>
           list_all (renderable w) (concat (map leaves xs)) \<Longrightarrow>
           \<exists>res w'. traverseArray cb w xs = Inr (res, w')"
proof (induction cb w v and cb w xs rule: traverseAllChildren_traverseArray.induct)
  case (11 cb w x xs)
  have rx: "list_all (renderable w) (leaves x)"
    and rxs: "list_all (renderable w) (concat (map leaves xs))"
    using "11.prems"(2) by simp_all
  from "11.IH"(1)[OF "11.prems"(1) rx] obtain r1 w1 where
    a: "traverseAllChildren cb w x = Inr (r1, w1)" by blast
  have e1: "extends w w1" using traverse_extends(1) a "11.prems"(1) by blast
  have "list_all (renderable w1) (concat (map leaves xs))"
    using rxs renderable_mono[OF _ e1] by (auto simp: list_all_iff)
  from "11.IH"(2)[OF "11.prems"(1) this] obtain r2 w2 where
    b: "traverseArray cb w1 xs = Inr (r2, w2)" by blast
  show ?case by (simp add: a b bindE_def)
next
  case (1 cb w)
  then show ?case using single_child_total[of w CNull] by simp
next
  case (2 cb w b)
  then show ?case using single_child_total[of w CNull] by simp
next
  case (3 cb w)
  then show ?case using single_child_total[of w CNull] by simp
next
  case (4 cb w s)
  then show ?case using single_child_total[of w "CStr s"] by simp
next
  case (5 cb w n)
  then show ?case using single_child_total[of w "CNum n"] by simp
next
  case (6 cb w a)
  then show ?case using single_child_total[of w "CElem a"] by simp
qed auto

lemma lookup_update:
  "lookup (AList.update k v ps) k' = (if k' = k then v else lookup ps k')"
  by (simp add: lookup_def update_conv')

lemma step_result:
  assumes "childrenWithOverridenStyle this w = Inr (JArr res, w')"
  shows "traverseAllChildren (mapSingleChild childWithOverridenStyle) w (children (props this))
           = Inr (res, w')"
  using assms
  by (auto simp: childrenWithOverridenStyle_def mapChildren_def bindE_def
           split: if_splits sum.splits)

lemma rewritten_member:
  assumes "list_all2 (rewrittenChild w w') (filter P xs) res" and "r \<in> set res"
  shows "\<exists>c \<in> set xs. rewrittenChild w w' c r"
proof -
  from assms(2) obtain i where i: "i < length res" "res ! i = r"
    by (auto simp: in_set_conv_nth)
  from assms(1) i have "rewrittenChild w w' (filter P xs ! i) r" "i < length (filter P xs)"
    by (auto simp: list_all2_conv_all_nth)
  moreover then have "filter P xs ! i \<in> set xs"
    using nth_mem[of i "filter P xs"] by auto
  ultimately show ?thesis by blast
qed

lemma traverseArray_skip:
  assumes "traverseAllChildren cb w v = Inr ([], w)"
  shows "traverseArray cb w (v # xs) = traverseArray cb w xs"
  by (cases "traverseArray cb w xs") (auto simp: assms bindE_def)

lemmas evaluation =
  childrenWithOverridenStyle_def mapChildren_def mapSingleChild_def
  childWithOverridenStyle_def createElement_def allocObject_def allocElement_def
  consoleWarn_def fillStyle_def lookup_def bindE_def Let_def nth_append

lemma traverse_falsy:
  "\<not> truthy v \<Longrightarrow>
     traverseAllChildren (mapSingleChild childWithOverridenStyle) w v = Inr ([], w)"
  by (cases v) (simp_all add: mapSingleChild_def callback_falsy bindE_def)

section \<open>Mounting\<close>

text \<open>
  C1 (as amended). On first mount the component hands exactly one set-page command,
  with the configured integer as its only argument, to the native side when
  \<^verbatim>\<open>initialPage\<close> is a non-zero integer; it hands over none, and changes nothing,
  when \<^verbatim>\<open>initialPage\<close> is unset or is zero. The source guards the call with
  \<^verbatim>\<open>if (this.props.initialPage)\<close>, and zero is falsy.
\<close>

theorem componentDidMount_initialPage:
  "(initialPage (props this) = JNum (Finite (of_int k)) \<and> k \<noteq> 0 \<longrightarrow>
      componentDidMount env this w =
        w\<lparr>commands := commands w @
           [\<lparr>target = nodeHandle this, command = setPageCommand env,
             args = [JNum (Finite (of_int k))]\<rparr>]\<rparr>) \<and>
   (initialPage (props this) = JUndefined \<or> initialPage (props this) = JNum (Finite 0) \<longrightarrow>
      componentDidMount env this w = w)"
  by (auto simp: componentDidMount_def setPage_def)

text \<open>
  The amended statement at \<^verbatim>\<open>initialPage = 1\<close> (one command, argument list \<open>[1]\<close>) and
  at an unset \<^verbatim>\<open>initialPage\<close> (no command).
\<close>

theorem componentDidMount_initialPage_witness:
  "initialPage (props (exampleComponent (unsetProps\<lparr>initialPage := JNum (Finite (of_int 1))\<rparr>)))
     = JNum (Finite (of_int 1)) \<and> (1::int) \<noteq> 0 \<and>
   commands (componentDidMount exampleNatives
      (exampleComponent (unsetProps\<lparr>initialPage := JNum (Finite (of_int 1))\<rparr>)) emptyWorld) =
     [\<lparr>target = JNum (Finite 7), command = JNum (Finite 1), args = [JNum (Finite 1)]\<rparr>] \<and>
   initialPage (props (exampleComponent unsetProps)) = JUndefined \<and>
   componentDidMount exampleNatives (exampleComponent unsetProps) emptyWorld = emptyWorld"
  using componentDidMount_initialPage[of
      "exampleComponent (unsetProps\<lparr>initialPage := JNum (Finite (of_int 1))\<rparr>)" 1
      exampleNatives emptyWorld]
    componentDidMount_initialPage[of "exampleComponent unsetProps" 0 exampleNatives emptyWorld]
  by (simp add: fixtures)

text \<open>
  With \<^verbatim>\<open>initialPage = 0\<close>, a defined integer, mounting in the empty world leaves the
  command list empty: no set-page command is issued.
\<close>

theorem componentDidMount_zero_counterexample:
  "commands (componentDidMount exampleNatives
      (exampleComponent (unsetProps\<lparr>initialPage := JNum (Finite 0)\<rparr>)) emptyWorld) = []"
  by (simp add: componentDidMount_def fixtures)

section \<open>The imperative page setter\<close>

text \<open>
  C4. For every integer \<open>k\<close>, \<^verbatim>\<open>setPage(k)\<close> hands exactly one command to the native
  side: the command list grows by one entry, addressed to this instance's node handle,
  naming the set-page command, with argument list \<open>[k]\<close>. Nothing else in the world
  changes, and the props of the instance (its children among them) play no part: no
  bound on \<open>k\<close> is checked.
\<close>

theorem setPage_dispatches_once:
  "commands (setPage env this (JNum (Finite (of_int k))) w) =
     commands w @
       [\<lparr>target = nodeHandle this, command = setPageCommand env,
         args = [JNum (Finite (of_int k))]\<rparr>] \<and>
   length (commands (setPage env this (JNum (Finite (of_int k))) w)) =
     Suc (length (commands w)) \<and>
   objects (setPage env this (JNum (Finite (of_int k))) w) = objects w \<and>
   elements (setPage env this (JNum (Finite (of_int k))) w) = elements w \<and>
   warnings (setPage env this (JNum (Finite (of_int k))) w) = warnings w \<and>
   calls (setPage env this (JNum (Finite (of_int k))) w) = calls w \<and>
   setPage env (this\<lparr>props := p\<rparr>) (JNum (Finite (of_int k))) w =
     setPage env this (JNum (Finite (of_int k))) w"
  by (simp add: setPage_def)

section \<open>The selection relay\<close>

text \<open>
  C5. For every selection-change event \<open>e\<close>: when \<^verbatim>\<open>onSelectionChange\<close> is a function,
  the relay calls it exactly once, with \<open>e\<close> itself as the only argument, and touches
  nothing else; when no callback is configured (the prop is \<^verbatim>\<open>undefined\<close> or
  \<^verbatim>\<open>null\<close>) the relay returns without error and without any effect.
\<close>

theorem selection_relay:
  "(onSelectionChange (props this) = JFun f \<longrightarrow>
      this_onSelectionChange this e w = Inr (w\<lparr>calls := calls w @ [(f, [e])]\<rparr>)) \<and>
   (onSelectionChange (props this) = JUndefined \<or> onSelectionChange (props this) = JNull \<longrightarrow>
      this_onSelectionChange this e w = Inr w)"
  by (auto simp: this_onSelectionChange_def)

text \<open>The relay with callback number 5 configured, and with none.\<close>

theorem selection_relay_witness:
  "onSelectionChange (props (exampleComponent (unsetProps\<lparr>onSelectionChange := JFun 5\<rparr>)))
     = JFun 5 \<and>
   this_onSelectionChange (exampleComponent (unsetProps\<lparr>onSelectionChange := JFun 5\<rparr>))
     (JObj 0) (pageWorld TUndefined) =
     Inr ((pageWorld TUndefined)\<lparr>calls := [(5, [JObj 0])]\<rparr>) \<and>
   onSelectionChange (props (exampleComponent unsetProps)) = JUndefined \<and>
   this_onSelectionChange (exampleComponent unsetProps) (JObj 0) (pageWorld TUndefined) =
     Inr (pageWorld TUndefined)"
  using selection_relay[of "exampleComponent (unsetProps\<lparr>onSelectionChange := JFun 5\<rparr>)" 5
      "JObj 0" "pageWorld TUndefined"]
    selection_relay[of "exampleComponent unsetProps" 0 "JObj 0" "pageWorld TUndefined"]
  by (simp add: fixtures)

section \<open>Rendering\<close>

text \<open>
  C2 (as amended). \<^verbatim>\<open>render()\<close> returns a native-control element and raises no error
  for every configuration in which each child, at every depth of nesting, is
  \<^verbatim>\<open>null\<close>, \<^verbatim>\<open>undefined\<close>, a boolean, a function, a falsy number, the empty string
  or an element of the store. The element returned is new, has the native type, and
  its props are the forwarded \<^verbatim>\<open>style\<close>, \<^verbatim>\<open>alwaysAnimate\<close>, the selection relay,
  \<^verbatim>\<open>selectedIndex\<close> and the rewritten children.
\<close>

theorem render_total:
  assumes "list_all (renderable w) (leaves (children (props this)))"
  shows "\<exists>kids w1.
     childrenWithOverridenStyle this w = Inr (kids, w1) \<and>
     render env this w =
       Inr (JElem (length (elements w1)),
            w1\<lparr>objects := objects w1 @
                  [[(''style'', style (props this)),
                    (''alwaysAnimate'', alwaysAnimate (props this)),
                    (''onSelectionChange'', JFun (selectionChangeRelay this)),
                    (''selectedIndex'', selectedIndex (props this)),
                    (''children'', kids)],
                   [(''style'', style (props this)),
                    (''alwaysAnimate'', alwaysAnimate (props this)),
                    (''onSelectionChange'', JFun (selectionChangeRelay this)),
                    (''selectedIndex'', selectedIndex (props this)),
                    (''children'', kids)]],
                elements := elements w1 @
                  [\<lparr>elType = NativeWindowsFlipView env,
                    elProps = length (objects w1) + 1\<rparr>]\<rparr>)"
proof -
  obtain kids w1 where k: "childrenWithOverridenStyle this w = Inr (kids, w1)"
  proof (cases "children (props this) = JUndefined \<or> children (props this) = JNull")
    case True
    then show ?thesis using that by (auto simp: childrenWithOverridenStyle_def mapChildren_def)
  next
    case False
    from traverse_total_gen(1)[OF refl assms] obtain res w1 where
      "traverseAllChildren (mapSingleChild childWithOverridenStyle) w (children (props this))
         = Inr (res, w1)" by blast
    with False show ?thesis using that
      by (auto simp: childrenWithOverridenStyle_def mapChildren_def bindE_def)
  qed
  show ?thesis
    by (simp add: k render_def bindE_def createElement_def allocObject_def allocElement_def
          nth_append)
qed

text \<open>
  Rendering \<^verbatim>\<open>{alwaysAnimate: true}\<close> with one view child, one \<^verbatim>\<open>null\<close> and one
  \<^verbatim>\<open>false\<close>: the children step yields the one rewritten page, and the native element
  is element number 2 of the resulting store.
\<close>

theorem render_total_witness:
  "list_all (renderable (pageWorld (TComponent 1 (Some ''View''))))
     (leaves (children (props (exampleComponent
        (unsetProps\<lparr>alwaysAnimate := JBool True,
                     children := JArr [JElem 0, JNull, JBool False]\<rparr>))))) \<and>
   render exampleNatives
     (exampleComponent
        (unsetProps\<lparr>alwaysAnimate := JBool True,
                     children := JArr [JElem 0, JNull, JBool False]\<rparr>))
     (pageWorld (TComponent 1 (Some ''View''))) =
   Inr (JElem 2,
        (rewrittenPageWorld (TComponent 1 (Some ''View'')) [])
          \<lparr>objects := objects (rewrittenPageWorld (TComponent 1 (Some ''View'')) []) @
             [[(''style'', JUndefined), (''alwaysAnimate'', JBool True),
               (''onSelectionChange'', JFun 0), (''selectedIndex'', JUndefined),
               (''children'', JArr [JElem 1])],
              [(''style'', JUndefined), (''alwaysAnimate'', JBool True),
               (''onSelectionChange'', JFun 0), (''selectedIndex'', JUndefined),
               (''children'', JArr [JElem 1])]],
           elements := elements (rewrittenPageWorld (TComponent 1 (Some ''View'')) []) @
             [\<lparr>elType = THost ''WindowsFlipView'', elProps = 5\<rparr>]\<rparr>)"
proof -
  let ?w = "pageWorld (TComponent 1 (Some ''View''))"
  let ?cmp = "exampleComponent
        (unsetProps\<lparr>alwaysAnimate := JBool True,
                     children := JArr [JElem 0, JNull, JBool False]\<rparr>)"
  have h: "list_all (renderable ?w) (leaves (children (props ?cmp)))"
    by (simp add: fixtures knownElement_def)
  have c: "childrenWithOverridenStyle ?cmp ?w =
             Inr (JArr [JElem 1], rewrittenPageWorld (TComponent 1 (Some ''View'')) [])"
    by (simp add: fixtures evaluation)
  from render_total[OF h, of exampleNatives] show ?thesis
    using h unfolding c by (simp add: fixtures)
qed

text \<open>
  A non-empty string child is truthy and has no \<^verbatim>\<open>props\<close>, so
  \<^verbatim>\<open>child.props.style\<close> throws: \<^verbatim>\<open>render()\<close> raises a \<^verbatim>\<open>TypeError\<close>.
\<close>

theorem render_string_child_counterexample:
  "render exampleNatives (exampleComponent (unsetProps\<lparr>children := JArr [JStr ''page'']\<rparr>))
     emptyWorld = Inl TypeError"
  by (simp add: render_def fixtures evaluation)

section \<open>Child rewriting\<close>

text \<open>
  C3. Whenever the child-rewriting step returns, in a store where the element children
  exist, every rendered child \<open>r\<close> is an element built from one of the element children
  \<open>a\<close>: it has the type of \<open>a\<close>; its \<^verbatim>\<open>style\<close> is the two-entry array of the
  original style value followed by a fill-overlay object, whose properties are
  \<^verbatim>\<open>position: 'absolute'\<close>, \<^verbatim>\<open>left\<close>, \<^verbatim>\<open>top\<close>, \<^verbatim>\<open>right\<close>, \<^verbatim>\<open>bottom\<close> zero,
  \<^verbatim>\<open>width\<close> and \<^verbatim>\<open>height\<close> undefined; its \<^verbatim>\<open>collapsable\<close> is false; and every
  other property reads as it does on \<open>a\<close>.
\<close>

theorem rewritten_child_style:
  assumes "childrenWithOverridenStyle this w = Inr (JArr res, w')"
    and "list_all (wellFormedLeaf w) (leaves (children (props this)))"
    and "r \<in> set res"
  shows "\<exists>a e fill.
     JElem a \<in> set (leaves (children (props this))) \<and> r = JElem e \<and>
     elType (elements w' ! e) = elType (elements w ! a) \<and>
     lookup (objects w' ! elProps (elements w' ! e)) ''style'' =
       JArr [lookup (objects w ! elProps (elements w ! a)) ''style'', JObj fill] \<and>
     objects w' ! fill =
       [(''position'', JStr ''absolute''), (''left'', JNum (Finite 0)),
        (''top'', JNum (Finite 0)), (''right'', JNum (Finite 0)),
        (''bottom'', JNum (Finite 0)), (''width'', JUndefined), (''height'', JUndefined)] \<and>
     lookup (objects w' ! elProps (elements w' ! e)) ''collapsable'' = JBool False \<and>
     (\<forall>k. k \<noteq> ''style'' \<and> k \<noteq> ''collapsable'' \<longrightarrow>
        lookup (objects w' ! elProps (elements w' ! e)) k =
        lookup (objects w ! elProps (elements w ! a)) k)"
proof -
  have "list_all2 (rewrittenChild w w')
          (filter (\<lambda>v. \<not> dropped v) (leaves (children (props this)))) res"
    using traverse_rewritten_gen(1)[OF refl assms(2) step_result[OF assms(1)]] .
  from rewritten_member[OF this assms(3)] obtain c where
    c: "c \<in> set (leaves (children (props this)))" and rc: "rewrittenChild w w' c r" by blast
  from rc obtain a e where ae: "c = JElem a" "r = JElem e" and rw: "rewrittenFrom w w' a e"
    unfolding rewrittenChild_iff by blast
  from rw obtain fill where
    t: "elType (elements w' ! e) = elType (elements w ! a)" and
    f: "objects w' ! fill = fillStyle" and
    n: "objects w' ! elProps (elements w' ! e) =
          AList.update ''collapsable'' (JBool False)
            (AList.update ''style''
               (JArr [lookup (objects w ! elProps (elements w ! a)) ''style'', JObj fill])
               (objects w ! elProps (elements w ! a)))"
    unfolding rewrittenFrom_iff by blast
  show ?thesis
    apply (rule exI[of _ a], rule exI[of _ e], rule exI[of _ fill])
    using c ae t f unfolding n by (simp add: lookup_update fillStyle_def)
qed

text \<open>
  One view child with style \<open>3\<close> and a \<^verbatim>\<open>testID\<close>: the rendered child is element 1, of
  the same type, with style \<open>[3, fill]\<close>, \<^verbatim>\<open>collapsable\<close> false and the \<^verbatim>\<open>testID\<close> kept.
\<close>

theorem rewritten_child_style_witness:
  "childrenWithOverridenStyle (exampleComponent (unsetProps\<lparr>children := JElem 0\<rparr>))
     (pageWorld (TComponent 1 (Some ''View''))) =
     Inr (JArr [JElem 1], rewrittenPageWorld (TComponent 1 (Some ''View'')) []) \<and>
   list_all (wellFormedLeaf (pageWorld (TComponent 1 (Some ''View''))))
     (leaves (children (props (exampleComponent (unsetProps\<lparr>children := JElem 0\<rparr>))))) \<and>
   JElem 1 \<in> set [JElem 1] \<and>
   elType (elements (rewrittenPageWorld (TComponent 1 (Some ''View'')) []) ! 1) =
     TComponent 1 (Some ''View'') \<and>
   lookup (objects (rewrittenPageWorld (TComponent 1 (Some ''View'')) []) ! 3) ''style'' =
     JArr [JNum (Finite 3), JObj 1] \<and>
   objects (rewrittenPageWorld (TComponent 1 (Some ''View'')) []) ! 1 = fillStyle \<and>
   lookup (objects (rewrittenPageWorld (TComponent 1 (Some ''View'')) []) ! 3) ''collapsable'' =
     JBool False \<and>
   lookup (objects (rewrittenPageWorld (TComponent 1 (Some ''View'')) []) ! 3) ''testID'' =
     JStr ''first''"
proof -
  let ?w = "pageWorld (TComponent 1 (Some ''View''))"
  let ?w' = "rewrittenPageWorld (TComponent 1 (Some ''View'')) []"
  let ?cmp = "exampleComponent (unsetProps\<lparr>children := JElem 0\<rparr>)"
  have h1: "childrenWithOverridenStyle ?cmp ?w = Inr (JArr [JElem 1], ?w')"
    by (simp add: fixtures evaluation)
  have h2: "list_all (wellFormedLeaf ?w) (leaves (children (props ?cmp)))"
    by (simp add: fixtures knownElement_def)
  have h3: "JElem 1 \<in> set [JElem 1]" by simp
  from rewritten_child_style[OF h1 h2 h3] obtain a e fill where
    a: "JElem a \<in> set (leaves (children (props ?cmp)))" and e: "JElem 1 = JElem e" and
    ty: "elType (elements ?w' ! e) = elType (elements ?w ! a)" and
    st: "lookup (objects ?w' ! elProps (elements ?w' ! e)) ''style'' =
       JArr [lookup (objects ?w ! elProps (elements ?w ! a)) ''style'', JObj fill]" and
    co: "lookup (objects ?w' ! elProps (elements ?w' ! e)) ''collapsable'' = JBool False" and
    rest: "\<forall>k. k \<noteq> ''style'' \<and> k \<noteq> ''collapsable'' \<longrightarrow>
        lookup (objects ?w' ! elProps (elements ?w' ! e)) k =
        lookup (objects ?w ! elProps (elements ?w ! a)) k"
    apply (elim exE conjE)
    apply (rule that)
    apply assumption+
    done
  have a0: "a = 0" using a by (simp add: fixtures)
  have e1: "e = 1" using e by simp
  have ne: "''testID'' \<noteq> ''style'' \<and> ''testID'' \<noteq> ''collapsable''" by simp
  have
    "lookup (objects ?w' ! elProps (elements ?w' ! e)) ''testID'' =
     lookup (objects ?w ! elProps (elements ?w ! a)) ''testID''"
    using rest[rule_format, OF ne] .
  then have t4: "lookup (objects ?w' ! 3) ''testID'' = JStr ''first''"
    unfolding a0 e1 by (simp add: fixtures lookup_def)
  have t1: "elType (elements ?w' ! 1) = TComponent 1 (Some ''View'')"
    using ty unfolding a0 e1 by (simp add: fixtures)
  have t2: "lookup (objects ?w' ! 3) ''style'' = JArr [JNum (Finite 3), JObj 1]"
    by (simp add: fixtures lookup_def)
  have t3: "lookup (objects ?w' ! 3) ''collapsable'' = JBool False"
    using co unfolding e1 by (simp add: fixtures)
  have t5: "objects ?w' ! 1 = fillStyle" by (simp add: fixtures)
  show ?thesis
    by (intro conjI; fact)
qed

text \<open>
  C6 (as amended). Whenever the child-rewriting step returns, in a store where the
  element children exist, the rendered children are the rewritten element children in
  input order. Their number is the number of input children (nested arrays flattened)
  minus the number of children that are dropped: \<^verbatim>\<open>null\<close> and \<^verbatim>\<open>undefined\<close>, and also
  booleans, functions, the numbers \<open>0\<close> and \<^verbatim>\<open>NaN\<close> and the empty string.
\<close>

theorem rendered_children_count_and_order:
  assumes "childrenWithOverridenStyle this w = Inr (JArr res, w')"
    and "list_all (wellFormedLeaf w) (leaves (children (props this)))"
  shows "length res = length (leaves (children (props this))) -
                      length (filter dropped (leaves (children (props this)))) \<and>
         list_all2 (rewrittenChild w w')
           (filter (\<lambda>v. \<not> dropped v) (leaves (children (props this)))) res"
proof -
  have r: "list_all2 (rewrittenChild w w')
          (filter (\<lambda>v. \<not> dropped v) (leaves (children (props this)))) res"
    using traverse_rewritten_gen(1)[OF refl assms(2) step_result[OF assms(1)]] .
  then have "length res = length (filter (\<lambda>v. \<not> dropped v) (leaves (children (props this))))"
    by (simp add: list_all2_lengthD)
  moreover have "length (filter (\<lambda>v. \<not> dropped v) (leaves (children (props this)))) =
     length (leaves (children (props this))) -
     length (filter dropped (leaves (children (props this))))"
    using sum_length_filter_compl[of dropped "leaves (children (props this))"] by simp
  ultimately show ?thesis using r by simp
qed

text \<open>
  Four children, \<^verbatim>\<open>[null, view, 0, true]\<close>: three are dropped and one page is
  rendered, the rewriting of the view.
\<close>

theorem rendered_children_count_and_order_witness:
  "childrenWithOverridenStyle
     (exampleComponent
        (unsetProps\<lparr>children := JArr [JNull, JElem 0, JNum (Finite 0), JBool True]\<rparr>))
     (pageWorld (TComponent 1 (Some ''View''))) =
     Inr (JArr [JElem 1], rewrittenPageWorld (TComponent 1 (Some ''View'')) []) \<and>
   list_all (wellFormedLeaf (pageWorld (TComponent 1 (Some ''View''))))
     [JNull, JElem 0, JNum (Finite 0), JBool True] \<and>
   length [JElem (1::nat)] = 4 - 3 \<and>
   list_all2 (rewrittenChild (pageWorld (TComponent 1 (Some ''View'')))
                (rewrittenPageWorld (TComponent 1 (Some ''View'')) []))
     [JElem 0] [JElem 1]"
proof -
  let ?w = "pageWorld (TComponent 1 (Some ''View''))"
  let ?w' = "rewrittenPageWorld (TComponent 1 (Some ''View'')) []"
  let ?cmp = "exampleComponent
        (unsetProps\<lparr>children := JArr [JNull, JElem 0, JNum (Finite 0), JBool True]\<rparr>)"
  have l: "leaves (children (props ?cmp)) = [JNull, JElem 0, JNum (Finite 0), JBool True]"
    by (simp add: fixtures)
  have h1: "childrenWithOverridenStyle ?cmp ?w = Inr (JArr [JElem 1], ?w')"
    by (simp add: fixtures evaluation)
  have h2: "list_all (wellFormedLeaf ?w) (leaves (children (props ?cmp)))"
    unfolding l by (simp add: fixtures knownElement_def)
  from rendered_children_count_and_order[OF h1 h2] h1 h2 show ?thesis
    unfolding l by simp
qed

text \<open>
  The child list \<^verbatim>\<open>[0]\<close> has one entry, which is neither \<^verbatim>\<open>null\<close> nor
  \<^verbatim>\<open>undefined\<close>, and no child is rendered.
\<close>

theorem children_count_counterexample:
  "childrenWithOverridenStyle
     (exampleComponent (unsetProps\<lparr>children := JArr [JNum (Finite 0)]\<rparr>)) emptyWorld =
     Inr (JArr [], emptyWorld)"
  by (simp add: fixtures evaluation)



text \<open>
  C9. The callback returns \<^verbatim>\<open>null\<close>, and leaves the world as it is, for every falsy
  child it can be called with: \<^verbatim>\<open>null\<close>, \<open>0\<close>, \<^verbatim>\<open>NaN\<close> and the empty string
  (\<^verbatim>\<open>false\<close> reaches it as \<^verbatim>\<open>null\<close>). In a child array, an entry \<^verbatim>\<open>false\<close>, \<open>0\<close>,
  \<^verbatim>\<open>NaN\<close> or \<open>''\<close> is skipped exactly as \<^verbatim>\<open>null\<close> is: the step behaves as if the
  entry were not there, so nothing is built and nothing is logged for it.
\<close>

theorem falsy_children_skipped:
  "childWithOverridenStyle w CNull = Inr (JNull, w) \<and>
   childWithOverridenStyle w (CNum (Finite 0)) = Inr (JNull, w) \<and>
   childWithOverridenStyle w (CNum NaN) = Inr (JNull, w) \<and>
   childWithOverridenStyle w (CStr []) = Inr (JNull, w) \<and>
   traverseArray (mapSingleChild childWithOverridenStyle) w (JNull # xs) =
     traverseArray (mapSingleChild childWithOverridenStyle) w xs \<and>
   traverseArray (mapSingleChild childWithOverridenStyle) w (JBool False # xs) =
     traverseArray (mapSingleChild childWithOverridenStyle) w xs \<and>
   traverseArray (mapSingleChild childWithOverridenStyle) w (JNum (Finite 0) # xs) =
     traverseArray (mapSingleChild childWithOverridenStyle) w xs \<and>
   traverseArray (mapSingleChild childWithOverridenStyle) w (JNum NaN # xs) =
     traverseArray (mapSingleChild childWithOverridenStyle) w xs \<and>
   traverseArray (mapSingleChild childWithOverridenStyle) w (JStr [] # xs) =
     traverseArray (mapSingleChild childWithOverridenStyle) w xs"
proof -
  have skip: "traverseArray (mapSingleChild childWithOverridenStyle) w (v # xs) =
       traverseArray (mapSingleChild childWithOverridenStyle) w xs" if "\<not> truthy v" for v
    using that by (rule traverseArray_skip[OF traverse_falsy])
  have "childWithOverridenStyle w CNull = Inr (JNull, w)"
    "childWithOverridenStyle w (CNum (Finite 0)) = Inr (JNull, w)"
    "childWithOverridenStyle w (CNum NaN) = Inr (JNull, w)"
    "childWithOverridenStyle w (CStr []) = Inr (JNull, w)"
    by (simp_all add: callback_falsy)
  moreover have "\<not> truthy JNull" "\<not> truthy (JBool False)" "\<not> truthy (JNum (Finite 0))"
    "\<not> truthy (JNum NaN)" "\<not> truthy (JStr [])"
    by simp_all
  ultimately show ?thesis using skip by blast
qed

section \<open>The diagnostic warning\<close>

text \<open>
  C7 (as amended). For every element child of the store: when its type has a
  non-empty \<^verbatim>\<open>displayName\<close> other than \<^verbatim>\<open>'RCTView'\<close> and \<^verbatim>\<open>'View'\<close>, the callback
  returns without error, logs exactly one warning, the fixed message followed by that
  name, and apart from the warning leaves the world exactly as the rewriting alone
  does: the fill object, the new props (twice: the object \<^verbatim>\<open>newProps\<close> and the
  element's copy of it) and the new element. When its type has no \<^verbatim>\<open>displayName\<close>
  (whatever the type is: a component without one, a host name, \<^verbatim>\<open>undefined\<close> or
  \<^verbatim>\<open>null\<close>) or an empty one, the callback returns without error, logs nothing, and
  the world is exactly that of the rewriting alone.
\<close>

theorem warning_for_named_non_view:
  assumes "knownElement w a"
  shows
    "(\<forall>i dn. elType (elements w ! a) = TComponent i (Some dn) \<and>
         dn \<noteq> [] \<and> dn \<noteq> ''RCTView'' \<and> dn \<noteq> ''View'' \<longrightarrow>
       (\<exists>w'. childWithOverridenStyle w (CElem a) = Inr (JElem (length (elements w)), w') \<and>
          warnings w' = warnings w @ [''Each FlipView child must be a <View>. Was '' @ dn] \<and>
          w'\<lparr>warnings := warnings w\<rparr> =
            w\<lparr>objects := objects w @
                 [fillStyle,
                  AList.update ''collapsable'' (JBool False)
                    (AList.update ''style''
                       (JArr [lookup (objects w ! elProps (elements w ! a)) ''style'',
                              JObj (length (objects w))])
                       (objects w ! elProps (elements w ! a))),
                  AList.update ''collapsable'' (JBool False)
                    (AList.update ''style''
                       (JArr [lookup (objects w ! elProps (elements w ! a)) ''style'',
                              JObj (length (objects w))])
                       (objects w ! elProps (elements w ! a)))],
               elements := elements w @
                 [\<lparr>elType = elType (elements w ! a),
                   elProps = length (objects w) + 2\<rparr>]\<rparr>)) \<and>
     (displayName (elType (elements w ! a)) = None \<or>
      displayName (elType (elements w ! a)) = Some [] \<longrightarrow>
       (\<exists>w'. childWithOverridenStyle w (CElem a) = Inr (JElem (length (elements w)), w') \<and>
          warnings w' = warnings w \<and>
          w' =
            w\<lparr>objects := objects w @
                 [fillStyle,
                  AList.update ''collapsable'' (JBool False)
                    (AList.update ''style''
                       (JArr [lookup (objects w ! elProps (elements w ! a)) ''style'',
                              JObj (length (objects w))])
                       (objects w ! elProps (elements w ! a))),
                  AList.update ''collapsable'' (JBool False)
                    (AList.update ''style''
                       (JArr [lookup (objects w ! elProps (elements w ! a)) ''style'',
                              JObj (length (objects w))])
                       (objects w ! elProps (elements w ! a)))],
               elements := elements w @
                 [\<lparr>elType = elType (elements w ! a),
                   elProps = length (objects w) + 2\<rparr>]\<rparr>))"
proof (intro conjI allI impI)
  fix i dn
  assume "elType (elements w ! a) = TComponent i (Some dn) \<and>
         dn \<noteq> [] \<and> dn \<noteq> ''RCTView'' \<and> dn \<noteq> ''View''"
  with assms show
    "\<exists>w'. childWithOverridenStyle w (CElem a) = Inr (JElem (length (elements w)), w') \<and>
       warnings w' = warnings w @ [''Each FlipView child must be a <View>. Was '' @ dn] \<and>
       w'\<lparr>warnings := warnings w\<rparr> =
         w\<lparr>objects := objects w @
              [fillStyle,
               AList.update ''collapsable'' (JBool False)
                 (AList.update ''style''
                    (JArr [lookup (objects w ! elProps (elements w ! a)) ''style'',
                           JObj (length (objects w))])
                    (objects w ! elProps (elements w ! a))),
               AList.update ''collapsable'' (JBool False)
                 (AList.update ''style''
                    (JArr [lookup (objects w ! elProps (elements w ! a)) ''style'',
                           JObj (length (objects w))])
                    (objects w ! elProps (elements w ! a)))],
            elements := elements w @
              [\<lparr>elType = elType (elements w ! a),
                elProps = length (objects w) + 2\<rparr>]\<rparr>"
    by (simp add: callback_elem knownElement_def Let_def)
next
  assume n: "displayName (elType (elements w ! a)) = None \<or>
      displayName (elType (elements w ! a)) = Some []"
  then have "\<not> truthyName (displayName (elType (elements w ! a)))"
    by auto
  with assms show
    "\<exists>w'. childWithOverridenStyle w (CElem a) = Inr (JElem (length (elements w)), w') \<and>
       warnings w' = warnings w \<and>
       w' =
         w\<lparr>objects := objects w @
              [fillStyle,
               AList.update ''collapsable'' (JBool False)
                 (AList.update ''style''
                    (JArr [lookup (objects w ! elProps (elements w ! a)) ''style'',
                           JObj (length (objects w))])
                    (objects w ! elProps (elements w ! a))),
               AList.update ''collapsable'' (JBool False)
                 (AList.update ''style''
                    (JArr [lookup (objects w ! elProps (elements w ! a)) ''style'',
                           JObj (length (objects w))])
                    (objects w ! elProps (elements w ! a)))],
            elements := elements w @
              [\<lparr>elType = elType (elements w ! a),
                elProps = length (objects w) + 2\<rparr>]\<rparr>"
    by (simp add: callback_elem knownElement_def Let_def)
qed

text \<open>
  A \<^verbatim>\<open>Text\<close> child: one warning, and the page is built as for a view. A child whose
  type is a host name, which has no \<^verbatim>\<open>displayName\<close>: the page is built and nothing
  is logged.
\<close>

theorem warning_for_named_non_view_witness:
  "knownElement (pageWorld (TComponent 2 (Some ''Text''))) 0 \<and>
   elType (elements (pageWorld (TComponent 2 (Some ''Text''))) ! 0) =
     TComponent 2 (Some ''Text'') \<and>
   ''Text'' \<noteq> [] \<and> ''Text'' \<noteq> ''RCTView'' \<and> ''Text'' \<noteq> ''View'' \<and>
   childWithOverridenStyle (pageWorld (TComponent 2 (Some ''Text''))) (CElem 0) =
     Inr (JElem 1,
          rewrittenPageWorld (TComponent 2 (Some ''Text''))
            [''Each FlipView child must be a <View>. Was Text'']) \<and>
   knownElement (pageWorld (THost ''Image'')) 0 \<and>
   displayName (elType (elements (pageWorld (THost ''Image'')) ! 0)) = None \<and>
   childWithOverridenStyle (pageWorld (THost ''Image'')) (CElem 0) =
     Inr (JElem 1, rewrittenPageWorld (THost ''Image'') [])"
proof -
  let ?w = "pageWorld (TComponent 2 (Some ''Text''))"
  let ?v = "pageWorld (THost ''Image'')"
  have h1: "knownElement ?w 0" by (simp add: fixtures knownElement_def)
  have h2: "elType (elements ?w ! 0) = TComponent 2 (Some ''Text'')" by (simp add: fixtures)
  have h3: "''Text'' \<noteq> []" "''Text'' \<noteq> ''RCTView''" "''Text'' \<noteq> ''View''" by simp_all
  have h23: "elType (elements ?w ! 0) = TComponent 2 (Some ''Text'') \<and>
         ''Text'' \<noteq> [] \<and> ''Text'' \<noteq> ''RCTView'' \<and> ''Text'' \<noteq> ''View''"
    using h2 h3 by (intro conjI)
  note named = conjunct1[OF warning_for_named_non_view[OF h1], rule_format, OF h23]
  then obtain w' where
    c: "childWithOverridenStyle ?w (CElem 0) = Inr (JElem (length (elements ?w)), w')" and
    ws: "warnings w' = warnings ?w @ [''Each FlipView child must be a <View>. Was '' @ ''Text'']"
    by (elim exE conjE)
  have ev1: "childWithOverridenStyle ?w (CElem 0) =
     Inr (JElem 1,
          rewrittenPageWorld (TComponent 2 (Some ''Text''))
            [''Each FlipView child must be a <View>. Was Text''])"
    by (simp add: fixtures evaluation)
  have w1: "w' = rewrittenPageWorld (TComponent 2 (Some ''Text''))
            [''Each FlipView child must be a <View>. Was Text'']"
    using c unfolding ev1 by simp
  have l1: "length (elements ?w) = 1" by (simp add: fixtures)
  have e1: "childWithOverridenStyle ?w (CElem 0) =
     Inr (JElem 1,
          rewrittenPageWorld (TComponent 2 (Some ''Text''))
            [''Each FlipView child must be a <View>. Was Text''])"
    using c unfolding w1 l1 .
  have k1: "knownElement ?v 0" by (simp add: fixtures knownElement_def)
  have k2: "displayName (elType (elements ?v ! 0)) = None" by (simp add: fixtures)
  have k2': "displayName (elType (elements ?v ! 0)) = None \<or>
      displayName (elType (elements ?v ! 0)) = Some []"
    using k2 by (rule disjI1)
  note unnamed = conjunct2[OF warning_for_named_non_view[OF k1], rule_format, OF k2']
  then obtain v' where
    d: "childWithOverridenStyle ?v (CElem 0) = Inr (JElem (length (elements ?v)), v')" and
    vs: "warnings v' = warnings ?v"
    by (elim exE conjE)
  have ev2: "childWithOverridenStyle ?v (CElem 0) =
     Inr (JElem 1, rewrittenPageWorld (THost ''Image'') [])"
    by (simp add: fixtures evaluation)
  have w2: "v' = rewrittenPageWorld (THost ''Image'') []"
    using d unfolding ev2 by simp
  have l2: "length (elements ?v) = 1" by (simp add: fixtures)
  have e2: "childWithOverridenStyle ?v (CElem 0) =
     Inr (JElem 1, rewrittenPageWorld (THost ''Image'') [])"
    using d unfolding w2 l2 .
  show ?thesis
    by (intro conjI; fact)
qed

text \<open>
  A child whose type is a component without \<^verbatim>\<open>displayName\<close>, and one whose
  \<^verbatim>\<open>displayName\<close> is the empty string: the name is neither \<^verbatim>\<open>'RCTView'\<close> nor
  \<^verbatim>\<open>'View'\<close>, the page is built, and the list of warnings stays empty.
\<close>

theorem warning_unnamed_counterexample:
  "childWithOverridenStyle (pageWorld (TComponent 2 None)) (CElem 0) =
     Inr (JElem 1, rewrittenPageWorld (TComponent 2 None) []) \<and>
   childWithOverridenStyle (pageWorld (TComponent 2 (Some ''''))) (CElem 0) =
     Inr (JElem 1, rewrittenPageWorld (TComponent 2 (Some '''')) [])"
  by (simp add: fixtures evaluation)

text \<open>
  C10. Whenever the callback returns: if it logged anything, its child is an element
  whose type is a component that has a \<^verbatim>\<open>displayName\<close>; and for an element child
  whose type has no \<^verbatim>\<open>displayName\<close> (a host name, a component without one, or no
  type at all) it logged nothing.
\<close>

theorem warning_needs_displayName:
  assumes "childWithOverridenStyle w c = Inr (r, w')"
  shows "(warnings w' \<noteq> warnings w \<longrightarrow>
            (\<exists>a i dn. c = CElem a \<and> elType (elements w ! a) = TComponent i (Some dn))) \<and>
         (\<forall>a. c = CElem a \<and> displayName (elType (elements w ! a)) = None \<longrightarrow>
            warnings w' = warnings w)"
proof (cases c)
  case (CElem a)
  show ?thesis
    using assms unfolding CElem callback_elem
    by (cases "elType (elements w ! a)")
       (auto simp: Let_def split: if_splits elim: truthyName.elims(2))
next
  case CNull
  with assms show ?thesis by (simp add: childWithOverridenStyle_def)
next
  case (CStr s)
  with assms show ?thesis by (auto simp: childWithOverridenStyle_def bindE_def split: if_splits)
next
  case (CNum n)
  with assms show ?thesis by (auto simp: childWithOverridenStyle_def bindE_def split: if_splits)
qed

text \<open>A child of host type \<^verbatim>\<open>'Text'\<close>, which has no \<^verbatim>\<open>displayName\<close>: no warning.\<close>

theorem warning_needs_displayName_witness:
  "childWithOverridenStyle (pageWorld (THost ''Text'')) (CElem 0) =
     Inr (JElem 1, rewrittenPageWorld (THost ''Text'') []) \<and>
   displayName (elType (elements (pageWorld (THost ''Text'')) ! 0)) = None \<and>
   warnings (rewrittenPageWorld (THost ''Text'') []) = warnings (pageWorld (THost ''Text''))"
proof -
  have h: "childWithOverridenStyle (pageWorld (THost ''Text'')) (CElem 0) =
     Inr (JElem 1, rewrittenPageWorld (THost ''Text'') [])"
    by (simp add: fixtures evaluation)
  from warning_needs_displayName[OF h] h show ?thesis
    by (simp add: fixtures)
qed

end
